theory Spec2Isabelle
  imports Complex_Main "HOL-Library.Word"
begin

section \<open>Synthy-Sound: the envelope, the oscillator, the instruments, the mixer\<close>

text \<open>
  A shallow embedding of \<^verbatim>\<open>src/main.cpp\<close>. The C++ type \<^verbatim>\<open>float\<close> is modelled by the
  real numbers: every arithmetic operation and comparison of the source is the exact
  operation on \<^typ>\<open>real\<close>, \<^verbatim>\<open>sinf\<close> and \<^verbatim>\<open>asinf\<close> are \<^const>\<open>sin\<close> and \<^const>\<open>arcsin\<close>,
  and \<^verbatim>\<open>(float)M_PI\<close> is \<^const>\<open>pi\<close>. Rounding, infinities and NaN are outside the model;
  where the source divides, the theorems below ask for a non-zero divisor whenever the
  result depends on it. \<^verbatim>\<open>Sint16\<close> is \<^typ>\<open>16 word\<close>, \<^verbatim>\<open>int\<close> is \<^typ>\<open>int\<close> (signed
  overflow of the sample counter is undefined in C++ and is not reached by any input
  used here).
\<close>

subsection \<open>Constants\<close>

definition AMPLITUDE :: int where
  "AMPLITUDE = 20000"

definition SAMPLE_RATE :: int where
  "SAMPLE_RATE = 44100"

text \<open>The macro \<^verbatim>\<open>H2W(hertz)\<close>, which expands to \<^verbatim>\<open>(hertz)*2*(float)M_PI\<close>.\<close>

definition H2W :: "real \<Rightarrow> real" where
  "H2W hertz = hertz * 2 * pi"

subsection \<open>class EnvelopeADSR\<close>

record EnvelopeADSR =
  attackTime :: real
  decayTime :: real
  releaseTime :: real
  sustainAmplitude :: real
  startAmplitude :: real

text \<open>The constructor \<^verbatim>\<open>EnvelopeADSR()\<close>.\<close>

definition EnvelopeADSR_new :: EnvelopeADSR where
  "EnvelopeADSR_new =
     \<lparr>attackTime = 0.01, decayTime = 1.0, releaseTime = 1.0,
      sustainAmplitude = 0.0, startAmplitude = 1.0\<rparr>"

text \<open>
  \<^verbatim>\<open>EnvelopeADSR::getAmplitude\<close>. The release branch assigns \<^verbatim>\<open>releaseAmplitude\<close> in an
  if / else-if chain that has no final else (the variable keeps its initial 0.0) and then
  in a separate \<^verbatim>\<open>if (lifeTime > attackTime + decayTime)\<close>; both are kept as written.
\<close>

definition getAmplitude :: "EnvelopeADSR \<Rightarrow> real \<Rightarrow> real \<Rightarrow> real \<Rightarrow> real" where
  "getAmplitude env t timeOn timeOff =
     (let amplitude =
        (if timeOn > timeOff then
           (let lifeTime = t - timeOn in
            if lifeTime \<le> attackTime env then
              (lifeTime / attackTime env) * startAmplitude env
            else if lifeTime \<le> attackTime env + decayTime env then
              (lifeTime - attackTime env) / decayTime env
                * (sustainAmplitude env - startAmplitude env) + startAmplitude env
            else sustainAmplitude env)
         else
           (let lifeTime = timeOff - timeOn;
                releaseAmplitude0 =
                  (if lifeTime \<le> attackTime env then
                     (lifeTime / attackTime env) * startAmplitude env
                   else if lifeTime \<le> (attackTime env + decayTime env) then
                     ((lifeTime - attackTime env) / decayTime env)
                       * (sustainAmplitude env - startAmplitude env) + startAmplitude env
                   else 0.0);
                releaseAmplitude =
                  (if lifeTime > (attackTime env + decayTime env) then sustainAmplitude env
                   else releaseAmplitude0)
            in ((t - timeOff) / releaseTime env) * (0.0 - releaseAmplitude) + releaseAmplitude))
      in if amplitude < 0.0000 then 0.0 else amplitude)"

subsection \<open>The oscillator\<close>

datatype WaveType = SINE | SQUARE | TRIANGLE | SAW | NOISE

text \<open>
  The C library is outside the repository: \<^verbatim>\<open>rand()\<close> is a sequence of results, the
  \<open>k\<close>-th call returning \<open>rand_seq k\<close>, and \<^verbatim>\<open>RAND_MAX\<close> is a constant of the platform
  (at least 32767 in every C library, so the division by it is a division by a positive
  number).
  Functions that may call \<^verbatim>\<open>rand()\<close> take the number of calls made so far and return it
  updated.
\<close>

record Libc =
  rand_seq :: "nat \<Rightarrow> int"
  RAND_MAX :: int

text \<open>The loop \<^verbatim>\<open>for (int i=1; i<40; ++i) answer += sinf((float)i * freq) / (float)i;\<close>\<close>

function saw_loop :: "int \<Rightarrow> real \<Rightarrow> real \<Rightarrow> real" where
  "saw_loop i freq answer =
     (if i < 40 then saw_loop (i + 1) freq (answer + sin (real_of_int i * freq) / real_of_int i)
      else answer)"
  by pat_completeness auto
termination
  by (relation "measure (\<lambda>(i, freq, answer). nat (40 - i))") auto

declare saw_loop.simps [simp del]

text \<open>\<^verbatim>\<open>getWave\<close>; the default arguments \<^verbatim>\<open>fmAmplitude=0, fmHertz=0\<close> are written at the calls.\<close>

definition getWave ::
  "Libc \<Rightarrow> WaveType \<Rightarrow> real \<Rightarrow> real \<Rightarrow> real \<Rightarrow> real \<Rightarrow> nat \<Rightarrow> real \<times> nat" where
  "getWave lib wave_type t hertz fmAmplitude fmHertz k =
     (let freq = H2W hertz * t + fmAmplitude * hertz * sin (H2W fmHertz * t) in
      case wave_type of
        SINE \<Rightarrow> (sin freq, k)
      | SQUARE \<Rightarrow> (if sin freq > 0 then 1 else -1, k)
      | TRIANGLE \<Rightarrow> (arcsin (sin freq) * 2.0 / pi, k)
      | SAW \<Rightarrow> (saw_loop 1 freq 0.0 * 2.0 / pi, k)
      | NOISE \<Rightarrow>
          (2.0 * real_of_int (rand_seq lib k) / real_of_int (RAND_MAX lib) - 1.0, Suc k))"

subsection \<open>The instruments\<close>

text \<open>
  \<^verbatim>\<open>class Instrument\<close> with its three subclasses. The virtual method \<^verbatim>\<open>sound\<close> is
  dispatched on the dynamic class of the object, kept here as a tag beside the fields.
\<close>

datatype InstrumentClass = Bell_class | Harmonica_class | PureSaw_class

record Instrument =
  dynamic_class :: InstrumentClass
  volume :: real
  envelope :: EnvelopeADSR

text \<open>The constructors: \<^verbatim>\<open>Instrument()\<close> sets the volume, the subclass the envelope.\<close>

definition Bell :: Instrument where
  "Bell =
     \<lparr>dynamic_class = Bell_class, volume = 1.0,
      envelope = EnvelopeADSR_new
        \<lparr>attackTime := 0.01, decayTime := 1.0, startAmplitude := 1.0,
         sustainAmplitude := 0.0, releaseTime := 1.0\<rparr>\<rparr>"

definition Harmonica :: Instrument where
  "Harmonica =
     \<lparr>dynamic_class = Harmonica_class, volume = 1.0,
      envelope = EnvelopeADSR_new
        \<lparr>attackTime := 0.1, decayTime := 0.01, startAmplitude := 1.0,
         sustainAmplitude := 0.8, releaseTime := 0.1\<rparr>\<rparr>"

definition PureSaw :: Instrument where
  "PureSaw =
     \<lparr>dynamic_class = PureSaw_class, volume = 0.8,
      envelope = EnvelopeADSR_new
        \<lparr>attackTime := 0.01, decayTime := 0.01, startAmplitude := 1.0,
         sustainAmplitude := 0.8, releaseTime := 0.01\<rparr>\<rparr>"

text \<open>
  The three \<^verbatim>\<open>sound\<close> methods return the sample, the flag written to \<^verbatim>\<open>noteIsAlive\<close> and
  the count of \<^verbatim>\<open>rand()\<close> calls.
\<close>

definition Bell_sound ::
  "Libc \<Rightarrow> Instrument \<Rightarrow> real \<Rightarrow> real \<Rightarrow> real \<Rightarrow> real \<Rightarrow> nat \<Rightarrow> real \<times> bool \<times> nat" where
  "Bell_sound lib this hertz t timeOn timeOff k =
     (let amplitude = getAmplitude (envelope this) t timeOn timeOff;
          noteIsAlive = amplitude > 0.0;
          (w1, k1) = getWave lib SINE t (hertz * 2.0) 0.001 5.0 k;
          (w2, k2) = getWave lib SINE t (hertz * 3.0) 0 0 k1;
          (w3, k3) = getWave lib SINE t (hertz * 4.0) 0 0 k2
      in (volume this * amplitude * (1.0 * w1 + 0.5 * w2 + 0.25 * w3), noteIsAlive, k3))"

definition Harmonica_sound ::
  "Libc \<Rightarrow> Instrument \<Rightarrow> real \<Rightarrow> real \<Rightarrow> real \<Rightarrow> real \<Rightarrow> nat \<Rightarrow> real \<times> bool \<times> nat" where
  "Harmonica_sound lib this hertz t timeOn timeOff k =
     (let amplitude = getAmplitude (envelope this) t timeOn timeOff;
          noteIsAlive = amplitude > 0.0;
          (w1, k1) = getWave lib SQUARE t hertz 0.001 5.0 k;
          (w2, k2) = getWave lib SQUARE t (hertz * 1.5) 0 0 k1;
          (w3, k3) = getWave lib SQUARE t (hertz * 2.0) 0 0 k2;
          (w4, k4) = getWave lib NOISE t 0.0 0 0 k3
      in (volume this * amplitude * (1.0 * w1 + 0.5 * w2 + 0.25 * w3 + 0.05 * w4),
          noteIsAlive, k4))"

definition PureSaw_sound ::
  "Libc \<Rightarrow> Instrument \<Rightarrow> real \<Rightarrow> real \<Rightarrow> real \<Rightarrow> real \<Rightarrow> nat \<Rightarrow> real \<times> bool \<times> nat" where
  "PureSaw_sound lib this hertz t timeOn timeOff k =
     (let amplitude = getAmplitude (envelope this) t timeOn timeOff;
          noteIsAlive = amplitude > 0.0;
          (w1, k1) = getWave lib SAW t hertz 0.001 5.0 k
      in (volume this * amplitude * w1, noteIsAlive, k1))"

definition sound ::
  "Libc \<Rightarrow> Instrument \<Rightarrow> real \<Rightarrow> real \<Rightarrow> real \<Rightarrow> real \<Rightarrow> nat \<Rightarrow> real \<times> bool \<times> nat" where
  "sound lib this hertz t timeOn timeOff k =
     (case dynamic_class this of
        Bell_class \<Rightarrow> Bell_sound lib this hertz t timeOn timeOff k
      | Harmonica_class \<Rightarrow> Harmonica_sound lib this hertz t timeOn timeOff k
      | PureSaw_class \<Rightarrow> PureSaw_sound lib this hertz t timeOn timeOff k)"

subsection \<open>struct Note and the callback's data\<close>

text \<open>
  The fields \<^verbatim>\<open>id\<close> and \<^verbatim>\<open>notes\<close> are named \<open>id'\<close> and \<open>notes'\<close> here.
  \<^verbatim>\<open>Instrument *instrument\<close> is a reference to
  one of the instrument objects of \<^verbatim>\<open>main\<close>, which are never changed after their
  construction, so the field holds the object. \<^verbatim>\<open>Note()\<close> leaves the pointer null and
  \<^verbatim>\<open>initializeKeyMap\<close>, the only place that builds a note, sets it in its next statement:
  the two statements together are \<open>Note_new\<close>.
\<close>

record Note =
  id' :: int
  freq :: real
  timeOn :: real
  timeOff :: real
  active :: bool
  instrument :: Instrument

definition Note_new :: "Instrument \<Rightarrow> Note" where
  "Note_new instr =
     \<lparr>id' = 0, freq = 0.0, timeOn = 0.0, timeOff = 0.0, active = False, instrument = instr\<rparr>"

record AudioCustomData =
  sample_nr :: int
  notes' :: "Note list"

definition AudioCustomData_new :: AudioCustomData where
  "AudioCustomData_new = \<lparr>sample_nr = 0, notes' = []\<rparr>"

subsection \<open>audio\_callback\<close>

text \<open>Integer division of C++, which truncates towards zero.\<close>

definition c_div :: "int \<Rightarrow> int \<Rightarrow> int" where
  "c_div a b =
     (if (0 \<le> a \<and> 0 \<le> b) \<or> (a < 0 \<and> b < 0) then \<bar>a\<bar> div \<bar>b\<bar> else - (\<bar>a\<bar> div \<bar>b\<bar>))"

text \<open>
  The conversion \<^verbatim>\<open>(Sint16)x\<close> of a float drops the fraction. C++ defines it only when the
  truncated value fits the type; the model takes the low 16 bits otherwise, and the
  theorems that read a sample say when the value fits.
\<close>

definition float_to_int :: "real \<Rightarrow> int" where
  "float_to_int x = (if 0 \<le> x then \<lfloor>x\<rfloor> else \<lceil>x\<rceil>)"

definition to_Sint16 :: "real \<Rightarrow> 16 word" where
  "to_Sint16 x = word_of_int (float_to_int x)"

definition fits_Sint16 :: "real \<Rightarrow> bool" where
  "fits_Sint16 x = (- 32768 \<le> float_to_int x \<and> float_to_int x \<le> 32767)"

text \<open>
  The inner loop \<^verbatim>\<open>for (Note &note : data->notes)\<close> at the time of sample \<open>i\<close>: it
  updates the notes in place, adds into \<^verbatim>\<open>buffer[i]\<close> and may call \<^verbatim>\<open>rand()\<close>.
\<close>

fun mix_notes ::
  "Libc \<Rightarrow> real \<Rightarrow> nat \<Rightarrow> Note list \<Rightarrow> 16 word list \<Rightarrow> nat \<Rightarrow> Note list \<times> 16 word list \<times> nat" where
  "mix_notes lib time i [] buffer k = ([], buffer, k)"
| "mix_notes lib time i (note # rest) buffer k =
     (let (result, alive, k') =
            sound lib (instrument note) (freq note) time (timeOn note) (timeOff note) k;
          note' = note\<lparr>active := alive\<rparr>;
          buffer' = buffer[i := buffer ! i + to_Sint16 (real_of_int (c_div AMPLITUDE 4) * result)];
          (rest', buffer'', k'') = mix_notes lib time i rest buffer' k'
      in (note' # rest', buffer'', k''))"

text \<open>The body of the outer loop, with its increment \<^verbatim>\<open>data->sample_nr++\<close>.\<close>

definition render_sample ::
  "Libc \<Rightarrow> int \<Rightarrow> AudioCustomData \<times> 16 word list \<times> nat \<Rightarrow> AudioCustomData \<times> 16 word list \<times> nat" where
  "render_sample lib i st =
     (case st of (data, buffer, k) \<Rightarrow>
        (let time = real_of_int (sample_nr data) / real_of_int SAMPLE_RATE;
             buffer0 = buffer[nat i := 0];
             (notes1, buffer', k') = mix_notes lib time (nat i) (notes' data) buffer0 k
         in (data\<lparr>notes' := notes1, sample_nr := sample_nr data + 1\<rparr>, buffer', k')))"

function render_loop ::
  "Libc \<Rightarrow> int \<Rightarrow> int \<Rightarrow> AudioCustomData \<times> 16 word list \<times> nat
     \<Rightarrow> AudioCustomData \<times> 16 word list \<times> nat" where
  "render_loop lib len i st =
     (if i < len then render_loop lib len (i + 1) (render_sample lib i st) else st)"
  by pat_completeness auto
termination
  by (relation "measure (\<lambda>(lib, len, i, st). nat (len - i))") auto

declare render_loop.simps [simp del]

text \<open>
  The second loop,
  \<^verbatim>\<open>for (int i = 0; i < length; data->sample_nr++) { buffer[i++] = (Sint16)(0.0f); }\<close>
\<close>

function silence_loop ::
  "int \<Rightarrow> int \<Rightarrow> AudioCustomData \<times> 16 word list \<Rightarrow> AudioCustomData \<times> 16 word list" where
  "silence_loop len i st =
     (if i < len then
        (case st of (data, buffer) \<Rightarrow>
           silence_loop len (i + 1)
             (data\<lparr>sample_nr := sample_nr data + 1\<rparr>, buffer[nat i := to_Sint16 0.0]))
      else st)"
  by pat_completeness auto
termination
  by (relation "measure (\<lambda>(len, i, st). nat (len - i))") auto

declare silence_loop.simps [simp del]

text \<open>
  \<^verbatim>\<open>audio_callback\<close>: \<open>buffer\<close> is the raw buffer seen as \<^verbatim>\<open>Sint16\<close> slots, \<open>bytes\<close> its
  size in bytes, \<open>len\<close> the local \<^verbatim>\<open>length\<close>.
\<close>

definition audio_callback ::
  "Libc \<Rightarrow> AudioCustomData \<Rightarrow> 16 word list \<Rightarrow> int \<Rightarrow> nat \<Rightarrow> AudioCustomData \<times> 16 word list \<times> nat" where
  "audio_callback lib data buffer bytes k =
     (let len = c_div bytes 2;
          (data1, buffer1, k1) = render_loop lib len 0 (data, buffer, k)
      in if notes' data1 = [] then
           (let (data2, buffer2) = silence_loop len 0 (data1, buffer1) in (data2, buffer2, k1))
         else (data1, buffer1, k1))"

subsection \<open>The key map and the event loop of main\<close>

datatype SDL_Scancode =
    SDL_SCANCODE_Z | SDL_SCANCODE_S | SDL_SCANCODE_X | SDL_SCANCODE_C | SDL_SCANCODE_F
  | SDL_SCANCODE_V | SDL_SCANCODE_G | SDL_SCANCODE_B | SDL_SCANCODE_N | SDL_SCANCODE_J
  | SDL_SCANCODE_M | SDL_SCANCODE_K | SDL_SCANCODE_COMMA | SDL_SCANCODE_other nat

text \<open>\<^verbatim>\<open>initializeKeyMap\<close>, statement by statement; \<^verbatim>\<open>powf(2, x)\<close> is \<open>2 powr x\<close>.\<close>

definition initializeKeyMap ::
  "(SDL_Scancode \<rightharpoonup> Note) \<Rightarrow> Instrument \<Rightarrow> (SDL_Scancode \<rightharpoonup> Note)" where
  "initializeKeyMap key_to_note instr =
     (let note = Note_new instr;
          note = note\<lparr>id' := 0\<rparr>;
          note = note\<lparr>freq := 440.0 * 2 powr (-12 / 12)\<rparr>;
          key_to_note = key_to_note(SDL_SCANCODE_Z \<mapsto> note);
          note = note\<lparr>id' := id' note + 1\<rparr>;
          note = note\<lparr>freq := 440.0 * 2 powr (-11 / 12)\<rparr>;
          key_to_note = key_to_note(SDL_SCANCODE_S \<mapsto> note);
          note = note\<lparr>id' := id' note + 1\<rparr>;
          note = note\<lparr>freq := 440.0 * 2 powr (-10 / 12)\<rparr>;
          key_to_note = key_to_note(SDL_SCANCODE_X \<mapsto> note);
          note = note\<lparr>id' := id' note + 1\<rparr>;
          note = note\<lparr>freq := 440.0 * 2 powr (-9 / 12)\<rparr>;
          key_to_note = key_to_note(SDL_SCANCODE_C \<mapsto> note);
          note = note\<lparr>id' := id' note + 1\<rparr>;
          note = note\<lparr>freq := 440.0 * 2 powr (-8 / 12)\<rparr>;
          key_to_note = key_to_note(SDL_SCANCODE_F \<mapsto> note);
          note = note\<lparr>id' := id' note + 1\<rparr>;
          note = note\<lparr>freq := 440.0 * 2 powr (-7 / 12)\<rparr>;
          key_to_note = key_to_note(SDL_SCANCODE_V \<mapsto> note);
          note = note\<lparr>id' := id' note + 1\<rparr>;
          note = note\<lparr>freq := 440.0 * 2 powr (-6 / 12)\<rparr>;
          key_to_note = key_to_note(SDL_SCANCODE_G \<mapsto> note);
          note = note\<lparr>id' := id' note + 1\<rparr>;
          note = note\<lparr>freq := 440.0 * 2 powr (-5 / 12)\<rparr>;
          key_to_note = key_to_note(SDL_SCANCODE_B \<mapsto> note);
          note = note\<lparr>id' := id' note + 1\<rparr>;
          note = note\<lparr>freq := 440.0 * 2 powr (-4 / 12)\<rparr>;
          key_to_note = key_to_note(SDL_SCANCODE_N \<mapsto> note);
          note = note\<lparr>id' := id' note + 1\<rparr>;
          note = note\<lparr>freq := 440.0 * 2 powr (-3 / 12)\<rparr>;
          key_to_note = key_to_note(SDL_SCANCODE_J \<mapsto> note);
          note = note\<lparr>id' := id' note + 1\<rparr>;
          note = note\<lparr>freq := 440.0 * 2 powr (-2 / 12)\<rparr>;
          key_to_note = key_to_note(SDL_SCANCODE_M \<mapsto> note);
          note = note\<lparr>id' := id' note + 1\<rparr>;
          note = note\<lparr>freq := 440.0 * 2 powr (-1 / 12)\<rparr>;
          key_to_note = key_to_note(SDL_SCANCODE_K \<mapsto> note);
          note = note\<lparr>id' := id' note + 1\<rparr>;
          note = note\<lparr>freq := 440.0 * 2 powr (0 / 12)\<rparr>;
          key_to_note = key_to_note(SDL_SCANCODE_COMMA \<mapsto> note)
      in key_to_note)"

text \<open>
  The events \<^verbatim>\<open>main\<close> tells apart: \<^verbatim>\<open>SDL_QUIT\<close>, \<^verbatim>\<open>SDL_KEYDOWN\<close> with its scancode and
  its \<^verbatim>\<open>repeat\<close> flag, \<^verbatim>\<open>SDL_KEYUP\<close> with its scancode, and any other event.
\<close>

datatype SDL_Event =
    SDL_QUIT
  | SDL_KEYDOWN SDL_Scancode bool
  | SDL_KEYUP SDL_Scancode
  | SDL_other_event

record MainState =
  custom_data :: AudioCustomData
  quit :: bool

text \<open>The loop \<^verbatim>\<open>for (Note &n : custom_data.notes)\<close> of the key-up branch.\<close>

fun release_notes :: "int \<Rightarrow> real \<Rightarrow> Note list \<Rightarrow> Note list" where
  "release_notes note_id sound_time [] = []"
| "release_notes note_id sound_time (n # ns) =
     (if id' n = note_id then n\<lparr>timeOff := sound_time\<rparr> else n)
       # release_notes note_id sound_time ns"

text \<open>The body of \<^verbatim>\<open>while(SDL_PollEvent(&event))\<close>.\<close>

definition handle_event :: "(SDL_Scancode \<rightharpoonup> Note) \<Rightarrow> MainState \<Rightarrow> SDL_Event \<Rightarrow> MainState" where
  "handle_event key_to_note st event =
     (let sound_time = real_of_int (sample_nr (custom_data st)) / real_of_int SAMPLE_RATE in
      case event of
        SDL_QUIT \<Rightarrow> st\<lparr>quit := True\<rparr>
      | SDL_KEYDOWN scancode repeat \<Rightarrow>
          (if \<not> repeat then
             (case key_to_note scancode of
                None \<Rightarrow> st
              | Some second \<Rightarrow>
                  (let note = second;
                       note = note\<lparr>timeOn := sound_time\<rparr>;
                       note = note\<lparr>active := True\<rparr>
                   in st\<lparr>custom_data :=
                        (custom_data st)\<lparr>notes' := notes' (custom_data st) @ [note]\<rparr>\<rparr>))
           else st)
      | SDL_KEYUP scancode \<Rightarrow>
          (case key_to_note scancode of
             None \<Rightarrow> st
           | Some second \<Rightarrow>
               (let note_id = id' second in
                st\<lparr>custom_data :=
                     (custom_data st)\<lparr>notes' :=
                        release_notes note_id sound_time (notes' (custom_data st))\<rparr>\<rparr>))
      | SDL_other_event \<Rightarrow> st)"

text \<open>The inner while loop over the pending events, in the order SDL delivers them.\<close>

fun poll_events :: "(SDL_Scancode \<rightharpoonup> Note) \<Rightarrow> MainState \<Rightarrow> SDL_Event list \<Rightarrow> MainState" where
  "poll_events key_to_note st [] = st"
| "poll_events key_to_note st (event # pending) =
     poll_events key_to_note (handle_event key_to_note st event) pending"

text \<open>
  One pass of \<^verbatim>\<open>while(!quit)\<close>: the pending events, then \<^verbatim>\<open>erase(remove_if(...))\<close> of
  the notes that are not active.
\<close>

definition main_iteration ::
  "(SDL_Scancode \<rightharpoonup> Note) \<Rightarrow> SDL_Event list \<Rightarrow> MainState \<Rightarrow> MainState" where
  "main_iteration key_to_note pending st =
     (let st1 = poll_events key_to_note st pending in
      st1\<lparr>custom_data :=
            (custom_data st1)\<lparr>notes' := filter (\<lambda>n. active n) (notes' (custom_data st1))\<rparr>\<rparr>)"

text \<open>
  The program as the two things that happen to its data: a pass of the main loop over the
  events pending then, and a call of the audio callback by SDL for a buffer of \<open>bytes\<close>
  bytes. The device lock of \<^verbatim>\<open>main\<close> keeps the two from overlapping, so a run is a list of
  steps. After \<^verbatim>\<open>quit\<close> is set the main loop makes no further pass.
\<close>

datatype Step = Main_pass "SDL_Event list" | Audio_call int

definition main_key_to_note :: "SDL_Scancode \<rightharpoonup> Note" where
  "main_key_to_note = initializeKeyMap Map.empty Bell"

definition main_start :: "MainState \<times> nat" where
  "main_start = (\<lparr>custom_data = AudioCustomData_new, quit = False\<rparr>, 0)"

definition run_step :: "Libc \<Rightarrow> MainState \<times> nat \<Rightarrow> Step \<Rightarrow> MainState \<times> nat" where
  "run_step lib w step =
     (case w of (st, k) \<Rightarrow>
        (case step of
           Main_pass pending \<Rightarrow>
             (if quit st then (st, k) else (main_iteration main_key_to_note pending st, k))
         | Audio_call bytes \<Rightarrow>
             (case audio_callback lib (custom_data st)
                     (replicate (nat (c_div bytes 2)) 0) bytes k of
                (data', buffer', k') \<Rightarrow> (st\<lparr>custom_data := data'\<rparr>, k'))))"

fun run :: "Libc \<Rightarrow> MainState \<times> nat \<Rightarrow> Step list \<Rightarrow> MainState \<times> nat" where
  "run lib w [] = w"
| "run lib w (step # steps) = run lib (run_step lib w step) steps"

subsection \<open>The words of the specification\<close>

text \<open>
  The envelope parameters the specification admits: strictly positive time constants,
  and amplitudes between 0 and 1.
\<close>

definition positive_times :: "EnvelopeADSR \<Rightarrow> bool" where
  "positive_times env = (0 < attackTime env \<and> 0 < decayTime env \<and> 0 < releaseTime env)"

definition unit_amplitudes :: "EnvelopeADSR \<Rightarrow> bool" where
  "unit_amplitudes env =
     (0 \<le> startAmplitude env \<and> startAmplitude env \<le> 1
      \<and> 0 \<le> sustainAmplitude env \<and> sustainAmplitude env \<le> 1)"

text \<open>
  The attack / decay / sustain formula of a held note as the specification words it, as
  a function of the life of the note: a linear ramp to \<open>startAmplitude\<close> over the attack,
  a linear interpolation from \<open>startAmplitude\<close> to \<open>sustainAmplitude\<close> over the decay,
  \<open>sustainAmplitude\<close> afterwards.
\<close>

definition spec_held_formula :: "EnvelopeADSR \<Rightarrow> real \<Rightarrow> real" where
  "spec_held_formula env life =
     (if life \<le> attackTime env then (life / attackTime env) * startAmplitude env
      else if life \<le> attackTime env + decayTime env then
        startAmplitude env
          + ((life - attackTime env) / decayTime env) * (sustainAmplitude env - startAmplitude env)
      else sustainAmplitude env)"

text \<open>
  The amplitude of a released note as the specification words it: the held formula at
  the life the note had at its release, ramped linearly to 0 along
  \<open>(t - timeOff) / releaseTime\<close>, and 0 where that is negative.
\<close>

definition spec_release_amplitude :: "EnvelopeADSR \<Rightarrow> real \<Rightarrow> real \<Rightarrow> real \<Rightarrow> real" where
  "spec_release_amplitude env t tOn tOff =
     (let relLife = tOff - tOn;
          releaseStartAmplitude = spec_held_formula env relLife;
          ramp = (t - tOff) / releaseTime env;
          a = releaseStartAmplitude + ramp * (0 - releaseStartAmplitude)
      in if a < 0 then 0 else a)"

text \<open>The phase of the oscillator as the specification words it.\<close>

definition spec_phase :: "real \<Rightarrow> real \<Rightarrow> real \<Rightarrow> real \<Rightarrow> real" where
  "spec_phase t hz fmAmplitude fmHertz =
     2 * pi * hz * t + fmAmplitude * hz * sin (2 * pi * fmHertz * t)"

subsection \<open>The vocabulary of the statements about the callback\<close>

text \<open>The time of a value of the sample counter, \<^verbatim>\<open>(float)sample_nr / (float)SAMPLE_RATE\<close>.\<close>

definition clock_time :: "int \<Rightarrow> real" where
  "clock_time n = real_of_int n / real_of_int SAMPLE_RATE"

text \<open>
  What one pass of the inner loop does to a note: it writes the flag \<^verbatim>\<open>noteIsAlive\<close>,
  which is \<open>amplitude > 0\<close> in all three instruments.
\<close>

definition refresh_active :: "real \<Rightarrow> Note \<Rightarrow> Note" where
  "refresh_active time n =
     n\<lparr>active := 0 < getAmplitude (envelope (instrument n)) time (timeOn n) (timeOff n)\<rparr>"

text \<open>The calls of \<^verbatim>\<open>rand()\<close> one sample makes: one for each Harmonica note.\<close>

definition rand_calls :: "Note list \<Rightarrow> nat" where
  "rand_calls ns = length (filter (\<lambda>n. dynamic_class (instrument n) = Harmonica_class) ns)"

text \<open>
  What one note adds to a sample: its \<^verbatim>\<open>sound\<close> result times \<^verbatim>\<open>AMPLITUDE/4\<close>,
  converted to \<^verbatim>\<open>Sint16\<close>.
\<close>

definition contribution :: "Libc \<Rightarrow> real \<Rightarrow> Note \<Rightarrow> nat \<Rightarrow> 16 word" where
  "contribution lib time n k =
     to_Sint16 (real_of_int (c_div AMPLITUDE 4)
       * fst (sound lib (instrument n) (freq n) time (timeOn n) (timeOff n) k))"

text \<open>The sum of the contributions of the notes, in 16-bit arithmetic.\<close>

definition mixed_sample :: "Libc \<Rightarrow> real \<Rightarrow> Note list \<Rightarrow> nat \<Rightarrow> 16 word" where
  "mixed_sample lib time ns k =
     (\<Sum>m<length ns. contribution lib time (ns ! m) (k + rand_calls (take m ns)))"

text \<open>
  Whether every contribution to a sample is a conversion C++ defines: each scaled result,
  with its fraction dropped, fits \<^verbatim>\<open>Sint16\<close>.
\<close>

fun contributions_fit :: "Libc \<Rightarrow> real \<Rightarrow> Note list \<Rightarrow> nat \<Rightarrow> bool" where
  "contributions_fit lib time [] k = True"
| "contributions_fit lib time (n # ns) k =
     (case sound lib (instrument n) (freq n) time (timeOn n) (timeOff n) k of
        (result, alive, k') \<Rightarrow>
          fits_Sint16 (real_of_int (c_div AMPLITUDE 4) * result)
          \<and> contributions_fit lib time ns k')"

text \<open>A C library for the examples: \<^verbatim>\<open>rand()\<close> returns 0 at every call.\<close>

definition example_libc :: Libc where
  "example_libc = \<lparr>rand_seq = (\<lambda>k. 0), RAND_MAX = 32767\<rparr>"

section \<open>The envelope\<close>

lemma Bell_fields [simp]:
  "attackTime (envelope Bell) = 1 / 100" "decayTime (envelope Bell) = 1"
  "releaseTime (envelope Bell) = 1" "sustainAmplitude (envelope Bell) = 0"
  "startAmplitude (envelope Bell) = 1" "volume Bell = 1" "dynamic_class Bell = Bell_class"
  by (simp_all add: Bell_def EnvelopeADSR_new_def)

lemma Bell_positive_times: "positive_times (envelope Bell)"
  by (simp add: positive_times_def)

lemma Bell_unit_amplitudes: "unit_amplitudes (envelope Bell)"
  by (simp add: unit_amplitudes_def)

text \<open>
  The two assignments of \<^verbatim>\<open>releaseAmplitude\<close> in the release branch compute the held
  formula when the decay time is not negative.
\<close>

lemma release_start_eq:
  assumes "0 \<le> decayTime env"
  shows "(if L > (attackTime env + decayTime env) then sustainAmplitude env
          else (if L \<le> attackTime env then (L / attackTime env) * startAmplitude env
                else if L \<le> (attackTime env + decayTime env) then
                  ((L - attackTime env) / decayTime env)
                    * (sustainAmplitude env - startAmplitude env) + startAmplitude env
                else 0.0)) = spec_held_formula env L"
  using assms by (auto simp: spec_held_formula_def)

lemma getAmplitude_release_branch:
  assumes "tOn \<le> tOff" and "0 \<le> decayTime env"
  shows "getAmplitude env t tOn tOff =
           (let r = spec_held_formula env (tOff - tOn);
                a = ((t - tOff) / releaseTime env) * (0 - r) + r
            in if a < 0 then 0 else a)"
proof -
  have held: "\<not> tOn > tOff" using assms(1) by simp
  show ?thesis
    unfolding getAmplitude_def Let_def
    by (simp only: held if_False release_start_eq [OF assms(2)]) simp
qed

lemma getAmplitude_held_branch:
  assumes "tOff < tOn"
  shows "getAmplitude env t tOn tOff =
           (let a = spec_held_formula env (t - tOn) in if a < 0 then 0 else a)"
  using assms by (simp add: getAmplitude_def spec_held_formula_def Let_def)

lemma getAmplitude_nonneg: "0 \<le> getAmplitude env t tOn tOff"
  by (simp add: getAmplitude_def Let_def)

lemma held_formula_le_one:
  assumes "positive_times env" and "unit_amplitudes env"
  shows "spec_held_formula env L \<le> 1"
proof -
  let ?A = "attackTime env" and ?D = "decayTime env"
  let ?St = "startAmplitude env" and ?Su = "sustainAmplitude env"
  have pos: "0 < ?A" "0 < ?D" using assms(1) by (simp_all add: positive_times_def)
  have amp: "0 \<le> ?St" "?St \<le> 1" "0 \<le> ?Su" "?Su \<le> 1"
    using assms(2) by (simp_all add: unit_amplitudes_def)
  consider (attack) "L \<le> ?A" | (decay) "?A < L" "L \<le> ?A + ?D" | (sustain) "?A < L" "?A + ?D < L"
    by linarith
  then show ?thesis
  proof cases
    case attack
    then have "L / ?A \<le> 1" using pos by simp
    then have "(L / ?A) * ?St \<le> 1 * ?St" using amp(1) by (rule mult_right_mono)
    with amp(2) attack show ?thesis by (simp add: spec_held_formula_def)
  next
    case decay
    define f where "f = (L - ?A) / ?D"
    have f: "0 \<le> f" "f \<le> 1" using decay pos by (simp_all add: f_def)
    have "?St + f * (?Su - ?St) = (1 - f) * ?St + f * ?Su" by (simp add: algebra_simps)
    also have "\<dots> \<le> (1 - f) * 1 + f * 1"
      using f amp by (intro add_mono mult_left_mono) simp_all
    finally have "?St + f * (?Su - ?St) \<le> 1" by simp
    with decay show ?thesis by (simp add: spec_held_formula_def f_def)
  next
    case sustain
    with amp pos show ?thesis by (simp add: spec_held_formula_def)
  qed
qed

lemma held_formula_nonneg:
  assumes "positive_times env" and "unit_amplitudes env" and "0 \<le> L"
  shows "0 \<le> spec_held_formula env L"
proof -
  let ?A = "attackTime env" and ?D = "decayTime env"
  let ?St = "startAmplitude env" and ?Su = "sustainAmplitude env"
  have pos: "0 < ?A" "0 < ?D" using assms(1) by (simp_all add: positive_times_def)
  have amp: "0 \<le> ?St" "?St \<le> 1" "0 \<le> ?Su" "?Su \<le> 1"
    using assms(2) by (simp_all add: unit_amplitudes_def)
  consider (attack) "L \<le> ?A" | (decay) "?A < L" "L \<le> ?A + ?D" | (sustain) "?A < L" "?A + ?D < L"
    by linarith
  then show ?thesis
  proof cases
    case attack
    have "0 \<le> (L / ?A) * ?St" using assms(3) pos amp(1) by simp
    with attack show ?thesis by (simp add: spec_held_formula_def)
  next
    case decay
    define f where "f = (L - ?A) / ?D"
    have f: "0 \<le> f" "f \<le> 1" using decay pos by (simp_all add: f_def)
    have "?St + f * (?Su - ?St) = (1 - f) * ?St + f * ?Su" by (simp add: algebra_simps)
    moreover have "0 \<le> (1 - f) * ?St + f * ?Su"
      using f amp by (intro add_nonneg_nonneg mult_nonneg_nonneg) simp_all
    ultimately have "0 \<le> ?St + f * (?Su - ?St)" by simp
    with decay show ?thesis by (simp add: spec_held_formula_def f_def)
  next
    case sustain
    with amp pos show ?thesis by (simp add: spec_held_formula_def)
  qed
qed

text \<open>
  C1. For a released note (\<open>timeOn \<le> timeOff\<close>) and every time \<open>t\<close>, \<^verbatim>\<open>getAmplitude\<close>
  returns the held-phase formula evaluated at the fixed life \<open>timeOff - timeOn\<close>, ramped
  linearly to 0 along \<open>(t - timeOff) / releaseTime\<close> and clamped to 0 when negative. The
  envelope has the positive time constants of the specification's data model.
\<close>

theorem getAmplitude_released:
  assumes "tOn \<le> tOff" and "positive_times env"
  shows "getAmplitude env t tOn tOff = spec_release_amplitude env t tOn tOff"
  using assms
  by (simp add: getAmplitude_release_branch spec_release_amplitude_def Let_def
        positive_times_def add.commute)

text \<open>
  The Bell envelope, a note pressed at 0 and released at 0.5, heard at 1: the value at
  release is 0.51 and half of the release time has passed.
\<close>

theorem getAmplitude_released_witness:
  "(0::real) \<le> 1 / 2 \<and> positive_times (envelope Bell)
   \<and> getAmplitude (envelope Bell) 1 0 (1 / 2) = spec_release_amplitude (envelope Bell) 1 0 (1 / 2)
   \<and> getAmplitude (envelope Bell) 1 0 (1 / 2) = 51 / 200"
proof -
  have h: "(0::real) \<le> 1 / 2" by simp
  have v: "spec_release_amplitude (envelope Bell) 1 0 (1 / 2) = 51 / 200"
    by (simp add: spec_release_amplitude_def spec_held_formula_def Let_def)
  show ?thesis
    using getAmplitude_released [OF h Bell_positive_times, of 1] v Bell_positive_times by simp
qed

text \<open>
  C3, as stated: for every \<open>timeOn\<close> and every \<open>timeOff > timeOn\<close> the held amplitude
  \<^verbatim>\<open>getAmplitude(timeOff, timeOn, 0)\<close> equals the released amplitude
  \<^verbatim>\<open>getAmplitude(timeOff, timeOn, timeOff)\<close>. It fails for the Bell envelope whenever
  \<open>timeOn\<close> is not above the 0 that stands for "held": at \<open>timeOn = 0\<close>, \<open>timeOff = 0.5\<close>
  the first call is 0 and the second 0.51; at \<open>timeOn = -1\<close>, \<open>timeOff = -0.5\<close> the first
  call is 0.015 and the second 0.51.
\<close>

theorem release_continuity_counterexample:
  "(0::real) < 0.5
   \<and> getAmplitude (envelope Bell) 0.5 0 0 = 0
   \<and> getAmplitude (envelope Bell) 0.5 0 0.5 = 0.51
   \<and> (- 1::real) < - 0.5
   \<and> getAmplitude (envelope Bell) (- 0.5) (- 1) 0 = 0.015
   \<and> getAmplitude (envelope Bell) (- 0.5) (- 1) (- 0.5) = 0.51"
  by (simp add: getAmplitude_def Let_def)

text \<open>
  C3, amended: for every \<open>timeOn > 0\<close>, every \<open>timeOff > timeOn\<close> and every envelope with
  positive time constants, \<^verbatim>\<open>getAmplitude(timeOff, timeOn, 0)\<close> equals
  \<^verbatim>\<open>getAmplitude(timeOff, timeOn, timeOff)\<close>.
\<close>

theorem release_continuity:
  assumes "0 < tOn" and "tOn < tOff" and "positive_times env"
  shows "getAmplitude env tOff tOn 0 = getAmplitude env tOff tOn tOff"
  using assms
  by (simp add: getAmplitude_release_branch getAmplitude_held_branch Let_def positive_times_def)

theorem release_continuity_witness:
  "(0::real) < 1 \<and> (1::real) < 3 / 2 \<and> positive_times (envelope Bell)
   \<and> getAmplitude (envelope Bell) (3 / 2) 1 0 = getAmplitude (envelope Bell) (3 / 2) 1 (3 / 2)
   \<and> getAmplitude (envelope Bell) (3 / 2) 1 0 = 51 / 100"
proof -
  have h1: "(0::real) < 1" and h2: "(1::real) < 3 / 2" by simp_all
  have v: "getAmplitude (envelope Bell) (3 / 2) 1 0 = 51 / 100"
    by (simp add: getAmplitude_def Let_def)
  show ?thesis
    using release_continuity [OF h1 h2 Bell_positive_times] v Bell_positive_times by simp
qed

text \<open>
  C4, as stated: for every \<open>timeOff\<close> and every \<open>t < timeOn\<close> the amplitude is 0. It fails
  for the Bell envelope on a released note, \<open>timeOn = 1\<close>, \<open>timeOff = 2\<close>, at \<open>t = 0\<close>: the
  ramp factor \<open>(t - timeOff) / releaseTime\<close> is negative and the result is 0.03.
\<close>

theorem amplitude_before_timeOn_counterexample:
  "(0::real) < 1 \<and> getAmplitude (envelope Bell) 0 1 2 = 0.03"
  by (simp add: getAmplitude_def Let_def)

text \<open>
  C4, amended: for every held note (\<open>timeOn > timeOff\<close>) of an envelope with positive
  attack time and non-negative start amplitude, and every \<open>t < timeOn\<close>, the amplitude is 0.
\<close>

theorem held_amplitude_before_timeOn:
  assumes "tOff < tOn" and "t < tOn" and "0 < attackTime env" and "0 \<le> startAmplitude env"
  shows "getAmplitude env t tOn tOff = 0"
proof -
  have "(t - tOn) / attackTime env \<le> 0" using assms(2,3) by (simp add: divide_le_0_iff)
  then have "(t - tOn) / attackTime env * startAmplitude env \<le> 0"
    using assms(4) by (rule mult_nonpos_nonneg)
  moreover have "t - tOn \<le> attackTime env" using assms(2,3) by simp
  ultimately show ?thesis using assms(1) by (simp add: getAmplitude_def Let_def)
qed

theorem held_amplitude_before_timeOn_witness:
  "(0::real) < 2 \<and> (1::real) < 2 \<and> 0 < attackTime (envelope Bell)
   \<and> 0 \<le> startAmplitude (envelope Bell) \<and> getAmplitude (envelope Bell) 1 2 0 = 0"
proof -
  have h1: "(0::real) < 2" and h2: "(1::real) < 2" by simp_all
  have h3: "0 < attackTime (envelope Bell)" and h4: "0 \<le> startAmplitude (envelope Bell)"
    by simp_all
  show ?thesis
    using held_amplitude_before_timeOn [OF h1 h2 h3 h4] by simp
qed

text \<open>
  C9, as stated: with amplitudes in [0,1] and positive time constants the result lies in
  [0,1] for every \<open>(t, timeOn, timeOff)\<close>. It fails for the Bell envelope on a released
  note heard before its release, \<open>timeOn = 1\<close>, \<open>timeOff = 1.5\<close>, \<open>t = 0\<close>: the result is
  1.275.
\<close>

theorem amplitude_above_one_counterexample:
  "positive_times (envelope Bell) \<and> unit_amplitudes (envelope Bell)
   \<and> getAmplitude (envelope Bell) 0 1 1.5 = 1.275 \<and> (1::real) < 1.275"
  by (simp add: getAmplitude_def Let_def positive_times_def unit_amplitudes_def)

text \<open>
  C9, amended: with amplitudes in [0,1] and positive time constants the result is never
  negative, and it is at most 1 for a held note at every \<open>t\<close> and for a released note at
  every \<open>t \<ge> timeOff\<close>.
\<close>

theorem amplitude_bounds:
  assumes "positive_times env" and "unit_amplitudes env"
  shows "0 \<le> getAmplitude env t tOn tOff
         \<and> (tOff < tOn \<or> tOff \<le> t \<longrightarrow> getAmplitude env t tOn tOff \<le> 1)"
proof (intro conjI impI)
  show "0 \<le> getAmplitude env t tOn tOff" by (rule getAmplitude_nonneg)
next
  assume range: "tOff < tOn \<or> tOff \<le> t"
  show "getAmplitude env t tOn tOff \<le> 1"
  proof (cases "tOff < tOn")
    case True
    have "spec_held_formula env (t - tOn) \<le> 1" using assms by (rule held_formula_le_one)
    then show ?thesis using True by (simp add: getAmplitude_held_branch Let_def)
  next
    case False
    then have rel: "tOn \<le> tOff" and after: "tOff \<le> t" using range by simp_all
    define r where "r = spec_held_formula env (tOff - tOn)"
    define u where "u = (t - tOff) / releaseTime env"
    have r: "0 \<le> r" "r \<le> 1"
      using held_formula_nonneg [OF assms, of "tOff - tOn"] held_formula_le_one [OF assms] rel
      by (simp_all add: r_def)
    have u: "0 \<le> u" using after assms(1) by (simp add: u_def positive_times_def)
    have "0 \<le> u * r" using u r(1) by simp
    then have "u * (0 - r) + r \<le> 1" using r(2) by (simp add: algebra_simps)
    moreover have "0 \<le> decayTime env" using assms(1) by (simp add: positive_times_def)
    ultimately show ?thesis
      using rel by (simp add: getAmplitude_release_branch Let_def r_def u_def)
  qed
qed

theorem amplitude_bounds_witness:
  "positive_times (envelope Bell) \<and> unit_amplitudes (envelope Bell)
   \<and> (3 / 2::real) \<le> 2
   \<and> 0 \<le> getAmplitude (envelope Bell) 2 1 (3 / 2)
   \<and> getAmplitude (envelope Bell) 2 1 (3 / 2) \<le> 1
   \<and> getAmplitude (envelope Bell) 2 1 (3 / 2) = 51 / 200"
proof -
  have v: "getAmplitude (envelope Bell) 2 1 (3 / 2) = 51 / 200"
    by (simp add: getAmplitude_def Let_def)
  show ?thesis
    using amplitude_bounds [OF Bell_positive_times Bell_unit_amplitudes, of 2 1 "3 / 2"]
      Bell_positive_times Bell_unit_amplitudes v
    by simp
qed

text \<open>
  C10. A note is held only when \<open>timeOn > timeOff\<close>. When \<open>timeOn = timeOff\<close> (a key
  pressed at sample-clock time 0 has both equal to 0) the release branch is taken with a
  life of 0: for an instrument whose envelope has positive time constants the amplitude
  is 0 at every \<open>t\<close>, the sample is 0 and \<^verbatim>\<open>sound\<close> reports the note dead.
\<close>

theorem equal_times_note_is_dead:
  assumes "positive_times (envelope inst)"
  shows "getAmplitude (envelope inst) t T T = spec_release_amplitude (envelope inst) t T T
         \<and> getAmplitude (envelope inst) t T T = 0
         \<and> fst (sound lib inst hz t T T k) = 0
         \<and> \<not> fst (snd (sound lib inst hz t T T k))"
proof -
  have z: "getAmplitude (envelope inst) t T T = 0"
    using assms by (simp add: getAmplitude_def Let_def positive_times_def)
  have s: "spec_release_amplitude (envelope inst) t T T = 0"
    using assms
    by (simp add: spec_release_amplitude_def spec_held_formula_def Let_def positive_times_def)
  have "fst (sound lib inst hz t T T k) = 0"
    by (cases "dynamic_class inst")
       (simp_all add: sound_def Bell_sound_def Harmonica_sound_def PureSaw_sound_def Let_def z
          split: prod.splits)
  moreover have "\<not> fst (snd (sound lib inst hz t T T k))"
    by (cases "dynamic_class inst")
       (simp_all add: sound_def Bell_sound_def Harmonica_sound_def PureSaw_sound_def Let_def z
          split: prod.splits)
  ultimately show ?thesis using z s by simp
qed

theorem equal_times_note_is_dead_witness:
  "positive_times (envelope Bell)
   \<and> getAmplitude (envelope Bell) 0.005 0 0 = 0
   \<and> fst (sound \<lparr>rand_seq = (\<lambda>k. 0), RAND_MAX = 32767\<rparr> Bell 220 0.005 0 0 0) = 0
   \<and> \<not> fst (snd (sound \<lparr>rand_seq = (\<lambda>k. 0), RAND_MAX = 32767\<rparr> Bell 220 0.005 0 0 0))"
  using equal_times_note_is_dead [OF Bell_positive_times,
      where t = "0.005" and T = 0 and hz = 220 and k = 0
        and lib = "\<lparr>rand_seq = (\<lambda>k. 0), RAND_MAX = 32767\<rparr>"]
    Bell_positive_times
  by simp

section \<open>The oscillator\<close>

lemma saw_loop_sum:
  "saw_loop i ph acc = acc + (\<Sum>j = i..39. sin (real_of_int j * ph) / real_of_int j)"
proof (induction i ph acc rule: saw_loop.induct)
  case (1 i ph acc)
  show ?case
  proof (cases "i < 40")
    case True
    then have split: "{i..39} = insert i {i + 1..39}" by auto
    have "saw_loop i ph acc = saw_loop (i + 1) ph (acc + sin (real_of_int i * ph) / real_of_int i)"
      using True by (subst saw_loop.simps) simp
    also have "\<dots> = acc + sin (real_of_int i * ph) / real_of_int i
                     + (\<Sum>j = i + 1..39. sin (real_of_int j * ph) / real_of_int j)"
      using "1.IH" [OF True] by simp
    also have "\<dots> = acc + (\<Sum>j = i..39. sin (real_of_int j * ph) / real_of_int j)"
      by (simp add: split)
    finally show ?thesis .
  next
    case False
    then have "{i..39} = {}" by auto
    with False show ?thesis by (subst saw_loop.simps) simp
  qed
qed

lemma H2W_phase: "H2W hz * t + fa * hz * sin (H2W fh * t) = spec_phase t hz fa fh"
  by (simp add: H2W_def spec_phase_def mult_ac)

text \<open>
  C5. For every waveform type, time, frequency and modulation arguments \<^verbatim>\<open>getWave\<close>
  evaluates its shape at the phase
  \<open>2\<pi> \<sdot> freq \<sdot> t + fmAmplitude \<sdot> freq \<sdot> sin (2\<pi> \<sdot> fmHertz \<sdot> t)\<close>: the sine, the sign of the
  sine, the scaled arc sine of the sine, and for SAW \<open>2/\<pi>\<close> times the sum of
  \<open>sin (i \<sdot> phase) / i\<close> for \<open>i\<close> from 1 to 39; NOISE takes the next result of \<^verbatim>\<open>rand()\<close>.
\<close>

theorem getWave_shapes:
  "getWave lib SINE t hz fa fh k = (sin (spec_phase t hz fa fh), k)
   \<and> getWave lib SQUARE t hz fa fh k = (if sin (spec_phase t hz fa fh) > 0 then 1 else - 1, k)
   \<and> getWave lib TRIANGLE t hz fa fh k = ((2 / pi) * arcsin (sin (spec_phase t hz fa fh)), k)
   \<and> getWave lib SAW t hz fa fh k =
       ((2 / pi) * (\<Sum>i = 1..39. sin (real_of_int i * spec_phase t hz fa fh) / real_of_int i), k)
   \<and> getWave lib NOISE t hz fa fh k =
       (2 * real_of_int (rand_seq lib k) / real_of_int (RAND_MAX lib) - 1, Suc k)"
  unfolding getWave_def Let_def H2W_phase
  by (simp add: saw_loop_sum)

section \<open>The instruments and the inner loop\<close>

lemma sound_alive:
  "fst (snd (sound lib inst hz t a b k)) = (0 < getAmplitude (envelope inst) t a b)"
  by (cases "dynamic_class inst")
     (simp_all add: sound_def Bell_sound_def Harmonica_sound_def PureSaw_sound_def Let_def
        split: prod.splits)

lemma sound_rand:
  "snd (snd (sound lib inst hz t a b k)) =
     k + (if dynamic_class inst = Harmonica_class then 1 else 0)"
  by (cases "dynamic_class inst")
     (simp_all add: sound_def Bell_sound_def Harmonica_sound_def PureSaw_sound_def Let_def
        getWave_def split: prod.splits)

lemma refresh_active_fields [simp]:
  "id' (refresh_active t n) = id' n" "freq (refresh_active t n) = freq n"
  "timeOn (refresh_active t n) = timeOn n" "timeOff (refresh_active t n) = timeOff n"
  "instrument (refresh_active t n) = instrument n"
  "active (refresh_active t n) =
     (0 < getAmplitude (envelope (instrument n)) t (timeOn n) (timeOff n))"
  by (simp_all add: refresh_active_def)

lemma refresh_active_twice [simp]:
  "refresh_active t2 (refresh_active t1 n) = refresh_active t2 n"
  by (simp add: refresh_active_def)

lemma map_refresh_active_twice [simp]:
  "map (refresh_active t2) (map (refresh_active t1) ns) = map (refresh_active t2) ns"
  by (simp add: comp_def)

lemma rand_calls_simps [simp]:
  "rand_calls [] = 0"
  "rand_calls (n # ns) =
     (if dynamic_class (instrument n) = Harmonica_class then 1 else 0) + rand_calls ns"
  by (simp_all add: rand_calls_def)

lemma rand_calls_refresh [simp]: "rand_calls (map (refresh_active t) ns) = rand_calls ns"
  by (induction ns) simp_all

lemma contribution_refresh [simp]:
  "contribution lib time (refresh_active t n) k = contribution lib time n k"
  by (simp add: contribution_def)

lemma mixed_sample_Nil [simp]: "mixed_sample lib time [] k = 0"
  by (simp add: mixed_sample_def)

lemma mixed_sample_Cons:
  "mixed_sample lib time (n # ns) k =
     contribution lib time n k
       + mixed_sample lib time ns
           (k + (if dynamic_class (instrument n) = Harmonica_class then 1 else 0))"
  by (simp add: mixed_sample_def sum.lessThan_Suc_shift add.assoc del: sum.lessThan_Suc)

lemma mixed_sample_refresh [simp]:
  "mixed_sample lib time (map (refresh_active t) ns) k = mixed_sample lib time ns k"
  by (induction ns arbitrary: k) (simp_all add: mixed_sample_Cons)

lemma mix_notes_result:
  "mix_notes lib time i ns buf k =
     (map (refresh_active time) ns, buf[i := buf ! i + mixed_sample lib time ns k],
      k + rand_calls ns)"
proof (induction ns arbitrary: buf k)
  case Nil
  show ?case by simp
next
  case (Cons n ns)
  obtain result alive k1
    where s: "sound lib (instrument n) (freq n) time (timeOn n) (timeOff n) k = (result, alive, k1)"
    by (cases "sound lib (instrument n) (freq n) time (timeOn n) (timeOff n) k") auto
  have alive: "alive = (0 < getAmplitude (envelope (instrument n)) time (timeOn n) (timeOff n))"
    using sound_alive [of lib "instrument n" "freq n" time "timeOn n" "timeOff n" k] s by simp
  have k1: "k1 = k + (if dynamic_class (instrument n) = Harmonica_class then 1 else 0)"
    using sound_rand [of lib "instrument n" "freq n" time "timeOn n" "timeOff n" k] s by simp
  have c: "to_Sint16 (real_of_int (c_div AMPLITUDE 4) * result) = contribution lib time n k"
    by (simp add: contribution_def s)
  define buf1 where "buf1 = buf[i := buf ! i + contribution lib time n k]"
  have step: "mix_notes lib time i (n # ns) buf k =
      (case mix_notes lib time i ns buf1 k1 of
         (rest', buffer'', k'') \<Rightarrow> (n\<lparr>active := alive\<rparr> # rest', buffer'', k''))"
    by (simp add: s c buf1_def Let_def)
  have n': "n\<lparr>active := alive\<rparr> = refresh_active time n"
    by (simp add: refresh_active_def alive)
  have buf: "buf1[i := buf1 ! i + mixed_sample lib time ns k1] =
             buf[i := buf ! i + mixed_sample lib time (n # ns) k]"
  proof (cases "i < length buf")
    case True
    then show ?thesis by (simp add: buf1_def mixed_sample_Cons k1 add.assoc)
  next
    case False
    then show ?thesis by (simp add: buf1_def list_update_beyond)
  qed
  show ?case
    unfolding step Cons.IH [of buf1 k1] by (simp add: n' buf) (simp add: k1)
qed

lemma render_sample_result:
  "render_sample lib i (data, buf, k) =
     (data\<lparr>notes' := map (refresh_active (real_of_int (sample_nr data) / real_of_int SAMPLE_RATE))
                         (notes' data),
           sample_nr := sample_nr data + 1\<rparr>,
      buf[nat i := mixed_sample lib (real_of_int (sample_nr data) / real_of_int SAMPLE_RATE)
                     (notes' data) k],
      k + rand_calls (notes' data))"
proof (cases "nat i < length buf")
  case True
  then show ?thesis by (simp add: render_sample_def mix_notes_result Let_def)
next
  case False
  then show ?thesis by (simp add: render_sample_def mix_notes_result Let_def list_update_beyond)
qed

section \<open>The audio callback\<close>

lemma render_sample_proj:
  "fst (render_sample lib i st) =
     (fst st)\<lparr>notes' := map (refresh_active (clock_time (sample_nr (fst st)))) (notes' (fst st)),
              sample_nr := sample_nr (fst st) + 1\<rparr>"
  "fst (snd (render_sample lib i st)) =
     (fst (snd st))[nat i := mixed_sample lib (clock_time (sample_nr (fst st)))
                               (notes' (fst st)) (snd (snd st))]"
  "snd (snd (render_sample lib i st)) = snd (snd st) + rand_calls (notes' (fst st))"
  by (cases st; simp add: render_sample_result clock_time_def)+

lemma render_loop_step: "i < len \<Longrightarrow>
    render_loop lib len i st = render_loop lib len (i + 1) (render_sample lib i st)"
  by (subst render_loop.simps) simp

lemma render_loop_done: "\<not> i < len \<Longrightarrow> render_loop lib len i st = st"
  by (subst render_loop.simps) simp

lemma render_loop_data:
  "fst (render_loop lib len i st) =
     (if i < len then
        (fst st)\<lparr>notes' := map (refresh_active (clock_time (sample_nr (fst st) + (len - i - 1))))
                             (notes' (fst st)),
                 sample_nr := sample_nr (fst st) + (len - i)\<rparr>
      else fst st)"
proof (induction lib len i st rule: render_loop.induct)
  case (1 lib len i st)
  show ?case
  proof (cases "i < len")
    case False
    then show ?thesis by (simp add: render_loop_done)
  next
    case True
    note eq = render_loop_step [OF True, of lib st]
    note IH = "1.IH" [OF True]
    show ?thesis
    proof (cases "i + 1 < len")
      case True
      with \<open>i < len\<close> show ?thesis
        unfolding eq IH by (simp add: render_sample_proj algebra_simps)
    next
      case False
      with \<open>i < len\<close> have "len - i - 1 = 0" "len - i = 1" by simp_all
      with False \<open>i < len\<close> show ?thesis
        unfolding eq IH by (simp add: render_sample_proj)
    qed
  qed
qed

lemma render_loop_rand:
  "snd (snd (render_loop lib len i st)) =
     snd (snd st) + nat (len - i) * rand_calls (notes' (fst st))"
proof (induction lib len i st rule: render_loop.induct)
  case (1 lib len i st)
  show ?case
  proof (cases "i < len")
    case False
    then show ?thesis by (simp add: render_loop_done)
  next
    case True
    note eq = render_loop_step [OF True, of lib st]
    from True have "nat (len - i) = Suc (nat (len - (i + 1)))" by simp
    then show ?thesis
      unfolding eq "1.IH" [OF True] by (simp add: render_sample_proj)
  qed
qed

lemma render_loop_length:
  "length (fst (snd (render_loop lib len i st))) = length (fst (snd st))"
proof (induction lib len i st rule: render_loop.induct)
  case (1 lib len i st)
  show ?case
  proof (cases "i < len")
    case False
    then show ?thesis by (simp add: render_loop_done)
  next
    case True
    note eq = render_loop_step [OF True, of lib st]
    show ?thesis
      unfolding eq "1.IH" [OF True] by (simp add: render_sample_proj)
  qed
qed

lemma render_loop_nth_before:
  "0 \<le> i \<Longrightarrow> m < nat i \<Longrightarrow>
     fst (snd (render_loop lib len i st)) ! m = fst (snd st) ! m"
proof (induction lib len i st rule: render_loop.induct)
  case (1 lib len i st)
  show ?case
  proof (cases "i < len")
    case False
    then show ?thesis by (simp add: render_loop_done)
  next
    case True
    note eq = render_loop_step [OF True, of lib st]
    have "fst (snd (render_loop lib len (i + 1) (render_sample lib i st))) ! m
            = fst (snd (render_sample lib i st)) ! m"
      using "1.IH" [OF True] "1.prems" by simp
    with "1.prems" show ?thesis
      unfolding eq by (simp add: render_sample_proj)
  qed
qed

lemma render_loop_nth:
  "0 \<le> i \<Longrightarrow> i \<le> j \<Longrightarrow> j < len \<Longrightarrow> nat j < length (fst (snd st)) \<Longrightarrow>
     fst (snd (render_loop lib len i st)) ! nat j =
       mixed_sample lib (clock_time (sample_nr (fst st) + (j - i))) (notes' (fst st))
         (snd (snd st) + nat (j - i) * rand_calls (notes' (fst st)))"
proof (induction lib len i st rule: render_loop.induct)
  case (1 lib len i st)
  from "1.prems" have run: "i < len" by simp
  note eq = render_loop_step [OF run, of lib st]
  show ?case
  proof (cases "j = i")
    case True
    have "fst (snd (render_loop lib len (i + 1) (render_sample lib i st))) ! nat i
            = fst (snd (render_sample lib i st)) ! nat i"
      using "1.prems" by (intro render_loop_nth_before) simp_all
    with True "1.prems" show ?thesis
      unfolding eq by (simp add: render_sample_proj)
  next
    case False
    with "1.prems" have next_j: "i + 1 \<le> j" and "0 \<le> i + 1" by simp_all
    have len': "nat j < length (fst (snd (render_sample lib i st)))"
      using "1.prems" by (simp add: render_sample_proj)
    have steps: "nat (j - i) = Suc (nat (j - (i + 1)))" using next_j by simp
    have "fst (snd (render_loop lib len (i + 1) (render_sample lib i st))) ! nat j =
            mixed_sample lib (clock_time (sample_nr (fst (render_sample lib i st)) + (j - (i + 1))))
              (notes' (fst (render_sample lib i st)))
              (snd (snd (render_sample lib i st))
                 + nat (j - (i + 1)) * rand_calls (notes' (fst (render_sample lib i st))))"
      using "1.IH" [OF run \<open>0 \<le> i + 1\<close> next_j "1.prems"(3) len'] .
    then show ?thesis
      unfolding eq by (simp add: render_sample_proj steps algebra_simps)
  qed
qed

lemma silence_loop_step: "i < len \<Longrightarrow>
    silence_loop len i st =
      silence_loop len (i + 1)
        ((fst st)\<lparr>sample_nr := sample_nr (fst st) + 1\<rparr>, (snd st)[nat i := 0])"
  by (subst silence_loop.simps) (simp add: to_Sint16_def float_to_int_def split: prod.splits)

lemma silence_loop_done: "\<not> i < len \<Longrightarrow> silence_loop len i st = st"
  by (subst silence_loop.simps) simp

lemma silence_loop_data:
  "fst (silence_loop len i st) = (fst st)\<lparr>sample_nr := sample_nr (fst st) + max 0 (len - i)\<rparr>"
proof (induction len i st rule: silence_loop.induct)
  case (1 len i st)
  show ?case
  proof (cases "i < len")
    case False
    then show ?thesis by (simp add: silence_loop_done)
  next
    case True
    note eq = silence_loop_step [OF True, of st]
    have IH: "fst (silence_loop len (i + 1)
                 ((fst st)\<lparr>sample_nr := sample_nr (fst st) + 1\<rparr>, (snd st)[nat i := 0])) =
              (fst st)\<lparr>sample_nr := sample_nr (fst st) + 1 + max 0 (len - (i + 1))\<rparr>"
      using "1.IH" [OF True, of "fst st" "snd st"] by (simp add: to_Sint16_def float_to_int_def)
    from True show ?thesis unfolding eq IH by (simp add: max_def)
  qed
qed

lemma silence_loop_length: "length (snd (silence_loop len i st)) = length (snd st)"
proof (induction len i st rule: silence_loop.induct)
  case (1 len i st)
  show ?case
  proof (cases "i < len")
    case False
    then show ?thesis by (simp add: silence_loop_done)
  next
    case True
    note eq = silence_loop_step [OF True, of st]
    have IH: "length (snd (silence_loop len (i + 1)
                 ((fst st)\<lparr>sample_nr := sample_nr (fst st) + 1\<rparr>, (snd st)[nat i := 0]))) =
              length ((snd st)[nat i := 0])"
      using "1.IH" [OF True, of "fst st" "snd st"] by (simp add: to_Sint16_def float_to_int_def)
    show ?thesis unfolding eq IH by simp
  qed
qed

lemma silence_loop_nth_before:
  "0 \<le> i \<Longrightarrow> m < nat i \<Longrightarrow> snd (silence_loop len i st) ! m = snd st ! m"
proof (induction len i st rule: silence_loop.induct)
  case (1 len i st)
  show ?case
  proof (cases "i < len")
    case False
    then show ?thesis by (simp add: silence_loop_done)
  next
    case True
    note eq = silence_loop_step [OF True, of st]
    have IH: "snd (silence_loop len (i + 1)
                 ((fst st)\<lparr>sample_nr := sample_nr (fst st) + 1\<rparr>, (snd st)[nat i := 0])) ! m =
              (snd st)[nat i := 0] ! m"
      using "1.IH" [OF True, of "fst st" "snd st"] "1.prems"
      by (simp add: to_Sint16_def float_to_int_def)
    from "1.prems" show ?thesis unfolding eq IH by simp
  qed
qed

lemma silence_loop_nth:
  "0 \<le> i \<Longrightarrow> i \<le> j \<Longrightarrow> j < len \<Longrightarrow> nat j < length (snd st) \<Longrightarrow>
     snd (silence_loop len i st) ! nat j = 0"
proof (induction len i st rule: silence_loop.induct)
  case (1 len i st)
  from "1.prems" have run: "i < len" by simp
  note eq = silence_loop_step [OF run, of st]
  show ?case
  proof (cases "j = i")
    case True
    have "snd (silence_loop len (i + 1)
                 ((fst st)\<lparr>sample_nr := sample_nr (fst st) + 1\<rparr>, (snd st)[nat i := 0])) ! nat i =
          (snd st)[nat i := 0] ! nat i"
      using "1.prems" by (subst silence_loop_nth_before) simp_all
    with True "1.prems" show ?thesis unfolding eq by simp
  next
    case False
    with "1.prems" have "0 \<le> i + 1" "i + 1 \<le> j" by simp_all
    then show ?thesis
      unfolding eq
      using "1.IH" [OF run, of "fst st" "snd st"] "1.prems"
      by (simp add: to_Sint16_def float_to_int_def)
  qed
qed

lemma callback_data:
  "fst (audio_callback lib data buf bytes k) =
     data\<lparr>notes' :=
            (if 0 < c_div bytes 2 then
               map (refresh_active (clock_time (sample_nr data + (c_div bytes 2 - 1)))) (notes' data)
             else notes' data),
          sample_nr :=
            sample_nr data + (if notes' data = [] then 2 else 1) * max 0 (c_div bytes 2)\<rparr>"
  by (simp add: audio_callback_def Let_def split_beta render_loop_data silence_loop_data max_def)

lemma callback_rand:
  "snd (snd (audio_callback lib data buf bytes k)) =
     k + nat (c_div bytes 2) * rand_calls (notes' data)"
  by (simp add: audio_callback_def Let_def split_beta render_loop_rand)

lemma callback_length:
  "length (fst (snd (audio_callback lib data buf bytes k))) = length buf"
  by (simp add: audio_callback_def Let_def split_beta render_loop_length silence_loop_length)

lemma callback_nth:
  assumes "0 \<le> j" and "j < c_div bytes 2" and "nat j < length buf"
  shows "fst (snd (audio_callback lib data buf bytes k)) ! nat j =
           mixed_sample lib (clock_time (sample_nr data + j)) (notes' data)
             (k + nat j * rand_calls (notes' data))"
proof -
  let ?st = "render_loop lib (c_div bytes 2) 0 (data, buf, k)"
  have run: "(0::int) < c_div bytes 2" using assms by simp
  have first: "fst (snd ?st) ! nat j =
      mixed_sample lib (clock_time (sample_nr data + j)) (notes' data)
        (k + nat j * rand_calls (notes' data))"
    using render_loop_nth [of 0 j "c_div bytes 2" "(data, buf, k)" lib] assms by simp
  show ?thesis
  proof (cases "notes' data = []")
    case False
    with run first show ?thesis
      by (simp add: audio_callback_def Let_def split_beta render_loop_data)
  next
    case True
    have "snd (silence_loop (c_div bytes 2) 0 (fst ?st, fst (snd ?st))) ! nat j = 0"
      using assms by (intro silence_loop_nth) (simp_all add: render_loop_length)
    with True run show ?thesis
      by (simp add: audio_callback_def Let_def split_beta render_loop_data)
  qed
qed

lemma c_div_consts [simp]: "c_div AMPLITUDE 4 = 5000"
  by (simp add: c_div_def AMPLITUDE_def)

lemma c_div_2_nonneg: "0 \<le> b \<Longrightarrow> c_div b 2 = b div 2"
  by (simp add: c_div_def)

text \<open>
  C6. The claim is that a call asked for \<open>N\<close> samples writes \<open>N\<close> samples, all zero when
  the registry is empty, and advances the sample counter by exactly \<open>N\<close>. With notes in
  the registry the counter advances by \<open>N\<close> (lemma \<open>callback_data\<close>). With an empty
  registry the first loop has already counted the \<open>N\<close> samples when the second loop
  counts them again: a call for 1024 bytes, 512 samples, at counter 0 writes 512 zeros and
  leaves the counter at 1024.
\<close>

theorem empty_registry_counts_twice:
  "sample_nr (fst (audio_callback example_libc AudioCustomData_new (replicate 512 1) 1024 0)) = 1024
   \<and> fst (snd (audio_callback example_libc AudioCustomData_new (replicate 512 1) 1024 0))
       = replicate 512 0"
proof
  show "sample_nr (fst (audio_callback example_libc AudioCustomData_new (replicate 512 1) 1024 0))
          = 1024"
    by (simp add: callback_data c_div_2_nonneg AudioCustomData_new_def)
next
  let ?out = "fst (snd (audio_callback example_libc AudioCustomData_new (replicate 512 1) 1024 0))"
  have len: "length ?out = 512" by (simp add: callback_length)
  have "?out ! m = replicate 512 0 ! m" if "m < 512" for m
    using callback_nth [of "int m" 1024 "replicate 512 1" example_libc AudioCustomData_new 0] that
    by (simp add: c_div_2_nonneg AudioCustomData_new_def)
  with len show "?out = replicate 512 0" by (simp add: list_eq_iff_nth_eq)
qed

text \<open>
  A Bell note of 2.5 Hz heard at 0.1 s: the three partials are at the phases \<open>\<pi>\<close>,
  \<open>3\<pi>/2\<close> and \<open>2\<pi>\<close>, so the wave mix is \<open>-1/2\<close>.
\<close>

lemma sin_three_halves_pi: "sin (3 * pi / 2) = - 1"
  using sin_3over2_pi by (simp add: mult.commute)

lemma Bell_sound_example:
  "sound lib Bell (5 / 2) (1 / 10) a 0 k =
     (getAmplitude (envelope Bell) (1 / 10) a 0 * (- 1 / 2),
      0 < getAmplitude (envelope Bell) (1 / 10) a 0, k)"
  by (simp add: sound_def Bell_sound_def getWave_def H2W_def Let_def sin_three_halves_pi)

lemma Bell_attack_one_sample:
  "getAmplitude (envelope Bell) (1 / 10) (4409 / 44100) 0 = 1 / 441"
  by (simp add: getAmplitude_def Let_def)

lemma Bell_attack_eleven_samples:
  "getAmplitude (envelope Bell) (1 / 10) (4399 / 44100) 0 = 11 / 441"
  by (simp add: getAmplitude_def Let_def)

lemma to_Sint16_examples:
  "to_Sint16 (- (2500 / 441)) = - 5" "to_Sint16 (- (5000 / 441)) = - 11"
  "to_Sint16 (- (27500 / 441)) = - 62"
  by (simp_all add: to_Sint16_def float_to_int_def)

text \<open>
  C8, as stated: the emitted sample is the sum of the \<^verbatim>\<open>sound\<close> results of the notes,
  multiplied once by \<^verbatim>\<open>AMPLITUDE/4\<close> = 5000 and then converted to 16 bits. It fails for
  two Bell notes of 2.5 Hz pressed at sample 4409 and heard at sample 4410: each result
  is \<open>-1/882\<close>, each scaled result \<open>-5.67\<close> is converted to \<open>-5\<close>, and the callback
  emits \<open>-10\<close>, while the sum scaled once, \<open>-11.34\<close>, converts to \<open>-11\<close>.
\<close>

theorem sample_scaled_once_counterexample:
  "fst (sound example_libc Bell 2.5 (clock_time 4410) (4409 / 44100) 0 0) = - 1 / 882
   \<and> fst (snd (audio_callback example_libc
        \<lparr>sample_nr = 4410,
         notes' = [\<lparr>id' = 0, freq = 2.5, timeOn = 4409 / 44100, timeOff = 0, active = True,
                     instrument = Bell\<rparr>,
                   \<lparr>id' = 1, freq = 2.5, timeOn = 4409 / 44100, timeOff = 0, active = True,
                     instrument = Bell\<rparr>]\<rparr> [0] 2 0)) = [- 10]
   \<and> to_Sint16 (real_of_int (c_div AMPLITUDE 4) * (- 1 / 882 + - 1 / 882)) = - 11
   \<and> (- 10 :: 16 word) \<noteq> - 11"
  by (simp add: audio_callback_def Let_def c_div_2_nonneg render_loop.simps render_sample_def
        SAMPLE_RATE_def clock_time_def Bell_sound_example Bell_attack_one_sample
        to_Sint16_examples)

text \<open>
  C8, amended: for each sample \<open>j\<close> of a call, the emitted 16-bit value is the sum, in
  wrapping 16-bit arithmetic and starting from 0, of one value for each note of the
  registry: the \<^verbatim>\<open>sound\<close> result of that note at the time of the sample, multiplied by
  \<^verbatim>\<open>AMPLITUDE/4\<close> = 5000 and converted to 16 bits on its own (the conversions being ones
  C++ defines). The \<open>m\<close>-th note sees the
  \<^verbatim>\<open>rand()\<close> results that follow those consumed by the earlier samples and the earlier
  notes.
\<close>

theorem audio_callback_sample:
  assumes "0 \<le> j" and "j < c_div bytes 2" and "nat j < length buffer"
    and "contributions_fit lib (clock_time (sample_nr data + j)) (notes' data)
           (k + nat j * rand_calls (notes' data))"
  shows "fst (snd (audio_callback lib data buffer bytes k)) ! nat j =
           mixed_sample lib (clock_time (sample_nr data + j)) (notes' data)
             (k + nat j * rand_calls (notes' data))"
  using assms(1-3) by (rule callback_nth)

text \<open>
  Two Bell notes of 2.5 Hz, pressed at the samples 4409 and 4399 and heard at sample
  4410: the contributions are \<open>-5\<close> and \<open>-62\<close>.
\<close>

theorem audio_callback_sample_witness:
  "(0::int) \<le> 0 \<and> 0 < c_div 2 2 \<and> nat 0 < length [0::16 word]
   \<and> contributions_fit example_libc (clock_time (4410 + 0))
        [\<lparr>id' = 0, freq = 2.5, timeOn = 4409 / 44100, timeOff = 0, active = True,
           instrument = Bell\<rparr>,
         \<lparr>id' = 1, freq = 2.5, timeOn = 4399 / 44100, timeOff = 0, active = True,
           instrument = Bell\<rparr>] 0
   \<and> fst (snd (audio_callback example_libc
        \<lparr>sample_nr = 4410,
         notes' = [\<lparr>id' = 0, freq = 2.5, timeOn = 4409 / 44100, timeOff = 0, active = True,
                     instrument = Bell\<rparr>,
                   \<lparr>id' = 1, freq = 2.5, timeOn = 4399 / 44100, timeOff = 0, active = True,
                     instrument = Bell\<rparr>]\<rparr> [0] 2 0)) ! nat 0 = - 67"
proof -
  let ?ns = "[\<lparr>id' = 0, freq = 2.5, timeOn = 4409 / 44100, timeOff = 0, active = True,
                instrument = Bell\<rparr>,
              \<lparr>id' = 1, freq = 2.5, timeOn = 4399 / 44100, timeOff = 0, active = True,
                instrument = Bell\<rparr>]"
  have h1: "(0::int) \<le> 0" by simp
  have h2: "0 < c_div 2 2" by (simp add: c_div_def)
  have h3: "nat 0 < length [0::16 word]" by simp
  have f1: "fits_Sint16 (- (2500 / 441))" and f2: "fits_Sint16 (- (27500 / 441))"
    by (simp_all add: fits_Sint16_def float_to_int_def)
  have h4: "contributions_fit example_libc (clock_time (4410 + 0)) ?ns
              (0 + nat 0 * rand_calls ?ns)"
    by (simp add: clock_time_def SAMPLE_RATE_def Bell_sound_example Bell_attack_one_sample
          Bell_attack_eleven_samples f1 f2)
  have v: "mixed_sample example_libc (clock_time (4410 + 0)) ?ns (0 + nat 0 * rand_calls ?ns)
             = - 67"
    by (simp add: mixed_sample_Cons contribution_def clock_time_def SAMPLE_RATE_def
          Bell_sound_example Bell_attack_one_sample Bell_attack_eleven_samples
          to_Sint16_examples)
  show ?thesis
    using audio_callback_sample [OF h1 h2 h3, where lib = example_libc and k = 0
                and data = "\<lparr>sample_nr = 4410, notes' = ?ns\<rparr>"] h2 h4 v
    by simp
qed

section \<open>The event loop\<close>

lemma key_Z:
  "main_key_to_note SDL_SCANCODE_Z =
     Some \<lparr>id' = 0, freq = 440 * 2 powr (- 12 / 12), timeOn = 0, timeOff = 0, active = False,
           instrument = Bell\<rparr>"
  by (simp add: main_key_to_note_def initializeKeyMap_def Let_def Note_new_def)

lemma run_step_audio:
  "run_step lib (st, k) (Audio_call bytes) =
     (st\<lparr>custom_data :=
           fst (audio_callback lib (custom_data st) (replicate (nat (c_div bytes 2)) 0) bytes k)\<rparr>,
      snd (snd (audio_callback lib (custom_data st) (replicate (nat (c_div bytes 2)) 0) bytes k)))"
  by (simp add: run_step_def split_beta)

lemma run_step_main:
  "run_step lib (st, k) (Main_pass pending) =
     (if quit st then (st, k) else (main_iteration main_key_to_note pending st, k))"
  by (simp add: run_step_def)

lemma release_notes_map:
  "release_notes note_id sound_time ns =
     map (\<lambda>n. if id' n = note_id then n\<lparr>timeOff := sound_time\<rparr> else n) ns"
  by (induction ns) simp_all

text \<open>
  C7, as stated: in every reachable trace of key-down and key-up events the \<^verbatim>\<open>timeOff\<close> of
  a note is assigned at most once, a key-up setting it only on held notes and never on a
  released one. It fails on this run of the program, with SDL's buffers of 512 samples:
  the key Z is pressed at sample 1024 and released at sample 1536; the note is in its
  release, \<open>timeOn \<le> timeOff\<close>, when Z is pressed again at sample 2048; the second key-up,
  at sample 2560, sets the \<^verbatim>\<open>timeOff\<close> of both notes, the first for the second time.
\<close>

theorem timeOff_assigned_once_counterexample:
  "map timeOn (notes' (custom_data (fst (run example_libc main_start
        [Audio_call 1024, Main_pass [SDL_KEYDOWN SDL_SCANCODE_Z False],
         Audio_call 1024, Main_pass [SDL_KEYUP SDL_SCANCODE_Z],
         Audio_call 1024, Main_pass [SDL_KEYDOWN SDL_SCANCODE_Z False],
         Audio_call 1024])))) = [1024 / 44100, 2048 / 44100]
   \<and> map timeOff (notes' (custom_data (fst (run example_libc main_start
        [Audio_call 1024, Main_pass [SDL_KEYDOWN SDL_SCANCODE_Z False],
         Audio_call 1024, Main_pass [SDL_KEYUP SDL_SCANCODE_Z],
         Audio_call 1024, Main_pass [SDL_KEYDOWN SDL_SCANCODE_Z False],
         Audio_call 1024])))) = [1536 / 44100, 0]
   \<and> map timeOff (notes' (custom_data (fst (run example_libc main_start
        [Audio_call 1024, Main_pass [SDL_KEYDOWN SDL_SCANCODE_Z False],
         Audio_call 1024, Main_pass [SDL_KEYUP SDL_SCANCODE_Z],
         Audio_call 1024, Main_pass [SDL_KEYDOWN SDL_SCANCODE_Z False],
         Audio_call 1024, Main_pass [SDL_KEYUP SDL_SCANCODE_Z]])))) = [2560 / 44100, 2560 / 44100]
   \<and> (1536 / 44100 :: real) \<noteq> 2560 / 44100"
  by (simp add: main_start_def AudioCustomData_new_def run_step_audio run_step_main
        callback_data callback_rand c_div_2_nonneg main_iteration_def handle_event_def key_Z
        Let_def SAMPLE_RATE_def clock_time_def refresh_active_def getAmplitude_def)

text \<open>
  C7, amended: a key-up of a mapped key sets \<^verbatim>\<open>timeOff\<close> to the current time of the
  sample clock on every note of the registry whose id is the id of the key, held or
  already released, and changes nothing else.
\<close>

theorem key_up_sets_timeOff_of_every_match:
  assumes "key_to_note scancode = Some second"
  shows "handle_event key_to_note st (SDL_KEYUP scancode) =
           st\<lparr>custom_data := (custom_data st)\<lparr>notes' :=
                map (\<lambda>n. if id' n = id' second
                          then n\<lparr>timeOff := clock_time (sample_nr (custom_data st))\<rparr> else n)
                  (notes' (custom_data st))\<rparr>\<rparr>"
  using assms by (simp add: handle_event_def Let_def release_notes_map clock_time_def)

text \<open>
  At sample 132300, 3 s, the key Z (id 0) is released with a released note of id 0, a
  held note of id 0 and a held note of id 1 in the registry.
\<close>

theorem key_up_sets_timeOff_of_every_match_witness:
  "main_key_to_note SDL_SCANCODE_Z =
     Some \<lparr>id' = 0, freq = 440 * 2 powr (- 12 / 12), timeOn = 0, timeOff = 0, active = False,
           instrument = Bell\<rparr>
   \<and> map timeOff
       (notes' (custom_data (handle_event main_key_to_note
          \<lparr>custom_data = \<lparr>sample_nr = 132300,
             notes' = [\<lparr>id' = 0, freq = 220, timeOn = 1, timeOff = 2, active = True,
                         instrument = Bell\<rparr>,
                       \<lparr>id' = 0, freq = 220, timeOn = 5 / 2, timeOff = 0, active = True,
                         instrument = Bell\<rparr>,
                       \<lparr>id' = 1, freq = 233, timeOn = 5 / 2, timeOff = 0, active = True,
                         instrument = Bell\<rparr>]\<rparr>,
           quit = False\<rparr> (SDL_KEYUP SDL_SCANCODE_Z)))) = [3, 3, 0]"
  using key_up_sets_timeOff_of_every_match
    [where key_to_note = main_key_to_note and scancode = SDL_SCANCODE_Z and st =
       "\<lparr>custom_data = \<lparr>sample_nr = 132300,
             notes' = [\<lparr>id' = 0, freq = 220, timeOn = 1, timeOff = 2, active = True,
                         instrument = Bell\<rparr>,
                       \<lparr>id' = 0, freq = 220, timeOn = 5 / 2, timeOff = 0, active = True,
                         instrument = Bell\<rparr>,
                       \<lparr>id' = 1, freq = 233, timeOn = 5 / 2, timeOff = 0, active = True,
                         instrument = Bell\<rparr>]\<rparr>,
           quit = False\<rparr>"] key_Z
  by (simp add: clock_time_def SAMPLE_RATE_def)

text \<open>
  C2. The claim is that the Bell envelope, with \<open>timeOn = 0\<close> and \<open>timeOff = 0\<close>, has
  amplitude about 0.5 at \<open>t = 0.005\<close>, the midpoint of the attack. The code compares
  \<open>timeOn > timeOff\<close>, which is false for \<open>0 > 0\<close>, takes the release branch with a life
  of 0 and returns 0. The program reaches that input: a key pressed before the first
  call of the audio callback gives a note with \<open>timeOn = 0\<close> and \<open>timeOff = 0\<close>, which the
  callback marks as not active and the next pass of the main loop removes.
\<close>

theorem Bell_midpoint_at_clock_zero:
  "getAmplitude (envelope Bell) 0.005 0 0 = 0
   \<and> map timeOn (notes' (custom_data (fst (run example_libc main_start
         [Main_pass [SDL_KEYDOWN SDL_SCANCODE_Z False]])))) = [0]
   \<and> map timeOff (notes' (custom_data (fst (run example_libc main_start
         [Main_pass [SDL_KEYDOWN SDL_SCANCODE_Z False]])))) = [0]
   \<and> map active (notes' (custom_data (fst (run example_libc main_start
         [Main_pass [SDL_KEYDOWN SDL_SCANCODE_Z False], Audio_call 1024])))) = [False]
   \<and> notes' (custom_data (fst (run example_libc main_start
         [Main_pass [SDL_KEYDOWN SDL_SCANCODE_Z False], Audio_call 1024, Main_pass []]))) = []"
  by (simp add: main_start_def AudioCustomData_new_def run_step_audio run_step_main
        callback_data callback_rand c_div_2_nonneg main_iteration_def handle_event_def key_Z
        Let_def SAMPLE_RATE_def clock_time_def refresh_active_def getAmplitude_def)

end
